theory Spec2Isabelle
  imports Main
begin

section \<open>BruteWordsCrank: a shallow embedding of \<^verbatim>\<open>src/BruteWordsCrank.py\<close>\<close>

text \<open>
  The program enumerates words over a character set (range mode), over a pattern of
  character classes (pattern mode) or as the permutations of a string (permutations mode),
  writes them to an output file and keeps a resume count in a companion session file.

  Python values are modelled as follows: \<^verbatim>\<open>int\<close> is \<^typ>\<open>int\<close> (unbounded),
  \<^verbatim>\<open>str\<close> is \<^typ>\<open>string\<close> (a \<^typ>\<open>char\<close> is a code point below 256),
  \<^verbatim>\<open>None\<close> is \<^const>\<open>None\<close>, an exception is a value of \<open>py_error\<close>, the files are a
  map from paths to contents. The interpreter is CPython 3.11 on a 64-bit platform. Of
  what the program prints and shows (the warnings, the totals, the progress bar, the
  elapsed time) only the exceptions are modelled that formatting a number or setting up
  the progress bar can raise. Time and memory are not modelled: a run takes as long and
  as much as it needs, and the later refreshes of the progress bar, which depend on the
  clock, are taken to succeed once the bar has been set up.
\<close>

subsection \<open>Python values\<close>

datatype py_error = TypeError | ValueError | ZeroDivisionError | OverflowError

text \<open>
  Three limits of the interpreter. Converting an integer to a float rounds to the nearest
  float, ties to even, and raises \<^verbatim>\<open>OverflowError\<close> when that would be \<open>2^1024\<close> or more
  in magnitude, which is exactly from \<open>2^1024 - 2^970\<close> on. Converting an integer to
  decimal text raises \<^verbatim>\<open>ValueError\<close> when it has more than 4300 digits
  (\<^verbatim>\<open>sys.int_info.default_max_str_digits\<close>). \<^verbatim>\<open>sys.maxsize\<close> is \<open>2^63 - 1\<close>.
\<close>

definition float_bound :: int where
  "float_bound = 2 ^ 1024 - 2 ^ 970"

definition float_overflows :: "int \<Rightarrow> bool" where
  "float_overflows i = (float_bound \<le> \<bar>i\<bar>)"

definition str_digits_bound :: int where
  "str_digits_bound = 10 ^ 4300"

definition str_too_long :: "int \<Rightarrow> bool" where
  "str_too_long i = (str_digits_bound \<le> \<bar>i\<bar>)"

definition sys_maxsize :: int where
  "sys_maxsize = 2 ^ 63 - 1"

text \<open>
  A Python number as the program computes it: an exact integer, or a float. Only
  \<^verbatim>\<open>int ** negative int\<close> produces a float in this program; its value is not modelled
  (it may be infinite: adding floats does not raise).
\<close>

datatype py_number = PyInt int | PyFloat

text \<open>
  \<^verbatim>\<open>x + y\<close>: exact on integers; with a float on one side the integer on the other is
  converted to a float first.
\<close>

fun py_add :: "py_number \<Rightarrow> py_number \<Rightarrow> py_error + py_number" where
  "py_add (PyInt a) (PyInt b) = Inr (PyInt (a + b))"
| "py_add (PyInt a) PyFloat = (if float_overflows a then Inl OverflowError else Inr PyFloat)"
| "py_add PyFloat (PyInt b) = (if float_overflows b then Inl OverflowError else Inr PyFloat)"
| "py_add PyFloat PyFloat = Inr PyFloat"

text \<open>
  \<^verbatim>\<open>b ** e\<close> on integers: exact for \<open>e \<ge> 0\<close> (with \<^verbatim>\<open>0 ** 0 == 1\<close>). For \<open>e < 0\<close>
  both sides are converted to floats first; then \<^verbatim>\<open>0.0 ** negative\<close> raises
  \<^verbatim>\<open>ZeroDivisionError\<close>, and any other base gives a float (an underflow gives 0.0).
\<close>

definition py_pow :: "int \<Rightarrow> int \<Rightarrow> py_error + py_number" where
  "py_pow b e =
     (if 0 \<le> e then Inr (PyInt (b ^ nat e))
      else if float_overflows b \<or> float_overflows e then Inl OverflowError
      else if b = 0 then Inl ZeroDivisionError
      else Inr PyFloat)"

text \<open>
  \<^verbatim>\<open>f"{n:,}"\<close>, as the two \<^verbatim>\<open>print\<close> calls of \<^verbatim>\<open>run_generation\<close> format the total
  and the limit: the exception it raises, if any.
\<close>

definition format_number :: "py_number \<Rightarrow> py_error option" where
  "format_number n =
     (case n of
        PyInt i \<Rightarrow> if str_too_long i then Some ValueError else None
      | PyFloat \<Rightarrow> None)"

text \<open>Truthiness, as \<^verbatim>\<open>if x:\<close> reads an optional string and an optional integer.\<close>

definition truthy_str :: "string option \<Rightarrow> bool" where
  "truthy_str s = (case s of None \<Rightarrow> False | Some t \<Rightarrow> t \<noteq> [])"

definition truthy_int :: "int option \<Rightarrow> bool" where
  "truthy_int i = (case i of None \<Rightarrow> False | Some n \<Rightarrow> n \<noteq> 0)"

subsection \<open>The iterators of \<^verbatim>\<open>itertools\<close>\<close>

text \<open>
  \<^verbatim>\<open>itertools.product(*pools)\<close>, after the reference implementation of the Python
  documentation:
  \<^verbatim>\<open>
    result = [[]]
    for pool in pools:
        result = [x+[y] for x in result for y in pool]
  \<close>
\<close>

definition product_step :: "'a list list \<Rightarrow> 'a list \<Rightarrow> 'a list list" where
  "product_step result pool = concat (map (\<lambda>x. map (\<lambda>y. x @ [y]) pool) result)"

definition itertools_product :: "'a list list \<Rightarrow> 'a list list" where
  "itertools_product pools = foldl product_step [[]] pools"

text \<open>\<^verbatim>\<open>itertools.product(pool, repeat=r)\<close> for \<open>r \<ge> 0\<close>.\<close>

definition product_repeat :: "'a list \<Rightarrow> nat \<Rightarrow> 'a list list" where
  "product_repeat pool r = itertools_product (replicate r pool)"

text \<open>
  \<^verbatim>\<open>itertools.permutations(iterable)\<close>, after the Python documentation, which gives it
  as the subsequence of \<^verbatim>\<open>product\<close> over the positions, without repeated positions:
  \<^verbatim>\<open>
    pool = tuple(iterable); n = len(pool)
    for indices in product(range(n), repeat=n):
        if len(set(indices)) == n:
            yield tuple(pool[i] for i in indices)
  \<close>
\<close>

definition itertools_permutations :: "'a list \<Rightarrow> 'a list list" where
  "itertools_permutations pool =
     (let n = length pool
      in map (\<lambda>indices. map (\<lambda>i. pool ! i) indices)
           (filter (\<lambda>indices. length (remdups indices) = n)
              (product_repeat [0..<n] n)))"

text \<open>
  A generator as the program consumes it: the items it yields, in order, and the
  exception it raises when pulled after the last of them, if any (\<^const>\<open>None\<close>: it is
  exhausted normally).
\<close>

type_synonym 'a generator = "'a list \<times> py_error option"

text \<open>
  \<^verbatim>\<open>chain.from_iterable(product(charset, repeat=length) for length in lengths)\<close>:
  lazy, so \<^verbatim>\<open>product\<close> is called for a length only when the chain reaches it, and
  \<^verbatim>\<open>product\<close> raises \<^verbatim>\<open>ValueError\<close> for a negative \<^verbatim>\<open>repeat\<close>.
\<close>

fun chain_products :: "'a list \<Rightarrow> int list \<Rightarrow> 'a list generator" where
  "chain_products pool [] = ([], None)"
| "chain_products pool (l # ls) =
     (if l < 0 then ([], Some ValueError)
      else (case chain_products pool ls of
              (ws, e) \<Rightarrow> (product_repeat pool (nat l) @ ws, e)))"

subsection \<open>Character classes\<close>

definition lowercase :: string where
  "lowercase = ''abcdefghijklmnopqrstuvwxyz''"

definition digit_chars :: string where
  "digit_chars = ''0123456789''"

definition symbol_chars :: string where
  "symbol_chars = ''!@#$%^&*()_+-=[]{}|;'' @ [CHR 0x27] @ '':'' @ [CHR 0x22] @ '',./<>?`~''"

text \<open>\<^verbatim>\<open>CHARSET_MAP.get(p, [p])\<close>: the class of a pattern character, or the character itself.\<close>

definition CHARSET_MAP :: "char \<rightharpoonup> string" where
  "CHARSET_MAP = [CHR ''@'' \<mapsto> lowercase, CHR ''%'' \<mapsto> digit_chars, CHR ''^'' \<mapsto> symbol_chars]"

definition char_options :: "char \<Rightarrow> string" where
  "char_options p = (case CHARSET_MAP p of Some cs \<Rightarrow> cs | None \<Rightarrow> [p])"

subsection \<open>Command-line arguments\<close>

text \<open>
  The \<^verbatim>\<open>argparse.Namespace\<close> that \<^verbatim>\<open>main\<close> builds. \<open>min_len\<close>, \<open>max_len\<close>,
  \<open>pattern\<close>, \<open>permutations\<close> and \<open>limit\<close> default to \<^verbatim>\<open>None\<close>; \<open>charset\<close>
  defaults to the lowercase letters, \<open>prefix\<close> and \<open>suffix\<close> to the empty string,
  \<open>output_file\<close> (the source's \<^verbatim>\<open>output\<close>) to \<^verbatim>\<open>wordlist.txt\<close>, \<open>resume\<close> to \<^verbatim>\<open>False\<close>.
\<close>

record args =
  min_len :: "int option"
  max_len :: "int option"
  charset :: string
  pattern :: "string option"
  permutations :: "string option"
  prefix :: string
  suffix :: string
  output_file :: string
  limit :: "int option"
  resume :: bool

definition default_args :: args where
  "default_args =
     \<lparr>min_len = None, max_len = None, charset = lowercase, pattern = None,
      permutations = None, prefix = [], suffix = [], output_file = ''wordlist.txt'',
      limit = None, resume = False\<rparr>"

text \<open>
  How a run ends. \<open>Completed\<close>: \<^verbatim>\<open>main\<close> returns (exit code 0). \<open>Paused\<close>:
  \<^verbatim>\<open>KeyboardInterrupt\<close>, progress saved, \<^verbatim>\<open>sys.exit(0)\<close>. \<open>ValidationError\<close>:
  \<^verbatim>\<open>validate_args\<close> calls \<^verbatim>\<open>sys.exit(1)\<close>. \<open>UsageError\<close>: \<^verbatim>\<open>parser.error\<close>
  (exit code 2). \<open>Crashed\<close>: an exception nobody catches (the interpreter exits with 1).
\<close>

datatype outcome = Completed | Paused | ValidationError | UsageError | Crashed py_error


subsection \<open>\<^verbatim>\<open>WordlistGenerator\<close>\<close>

text \<open>
  \<^verbatim>\<open>validate_args\<close>: \<^verbatim>\<open>self.args.min_len > self.args.max_len\<close> raises
  \<^verbatim>\<open>TypeError\<close> when either side is \<^verbatim>\<open>None\<close>; the two warnings only print.
\<close>

definition validate_args :: "args \<Rightarrow> outcome + unit" where
  "validate_args a =
     (case (min_len a, max_len a) of
        (Some lo, Some hi) \<Rightarrow> if lo > hi then Inl ValidationError else Inr ()
      | _ \<Rightarrow> Inl (Crashed TypeError))"

text \<open>\<^verbatim>\<open>sum(charset_len ** i for i in range(min_len, max_len + 1))\<close>, from the left.\<close>

fun sum_powers :: "int \<Rightarrow> int list \<Rightarrow> py_number \<Rightarrow> py_error + py_number" where
  "sum_powers b [] acc = Inr acc"
| "sum_powers b (i # is) acc =
     (case py_pow b i of
        Inl e \<Rightarrow> Inl e
      | Inr v \<Rightarrow>
          (case py_add acc v of
             Inl e \<Rightarrow> Inl e
           | Inr acc' \<Rightarrow> sum_powers b is acc'))"

text \<open>
  \<^verbatim>\<open>_estimate_combinations\<close>. In pattern mode \<^verbatim>\<open>count\<close> starts at 1 and is multiplied
  by the size of each position's class.
\<close>

definition estimate_combinations :: "args \<Rightarrow> py_error + py_number" where
  "estimate_combinations a =
     (if truthy_str (permutations a)
      then Inr (PyInt (int (length (itertools_permutations (the (permutations a))))))
      else if truthy_str (pattern a)
      then Inr (PyInt (foldl (\<lambda>count c. count * int (length (char_options c))) 1
                         (the (pattern a))))
      else (case (min_len a, max_len a) of
              (Some lo, Some hi) \<Rightarrow> sum_powers (int (length (charset a))) [lo..hi] (PyInt 0)
            | _ \<Rightarrow> Inl TypeError))"

text \<open>The object \<^verbatim>\<open>__init__\<close> builds: the arguments, the total, the session file's path.\<close>

record wordlist_generator =
  gen_args :: args
  total_combinations :: py_number
  session_file :: string

definition init :: "args \<Rightarrow> outcome + wordlist_generator" where
  "init a =
     (case validate_args a of
        Inl out \<Rightarrow> Inl out
      | Inr _ \<Rightarrow>
          (case estimate_combinations a of
             Inl e \<Rightarrow> Inl (Crashed e)
           | Inr t \<Rightarrow>
               Inr \<lparr>gen_args = a, total_combinations = t,
                    session_file = output_file a @ ''.session''\<rparr>))"

text \<open>
  The generator that \<^verbatim>\<open>_generate_permutations\<close> and \<^verbatim>\<open>_generate_combinations\<close> hand to
  \<^verbatim>\<open>_write_to_file\<close>, chosen as \<^verbatim>\<open>run_generation\<close> chooses.
\<close>

definition generate_permutations :: "args \<Rightarrow> string generator" where
  "generate_permutations a = (itertools_permutations (the (permutations a)), None)"

definition generate_combinations :: "args \<Rightarrow> string generator" where
  "generate_combinations a =
     (if truthy_str (pattern a)
      then (itertools_product (map char_options (the (pattern a))), None)
      else (case (min_len a, max_len a) of
              (Some lo, Some hi) \<Rightarrow> chain_products (charset a) [lo..hi]
            | _ \<Rightarrow> ([], Some TypeError)))"

definition word_generator :: "args \<Rightarrow> string generator" where
  "word_generator a =
     (if truthy_str (permutations a) then generate_permutations a
      else generate_combinations a)"

subsection \<open>Decimal text of integers\<close>

text \<open>\<^verbatim>\<open>str(n)\<close> for an integer: the decimal digits, with \<^verbatim>\<open>-\<close> before a negative one.\<close>

definition digit_char :: "nat \<Rightarrow> char" where
  "digit_char d = char_of (48 + d)"

fun digits :: "nat \<Rightarrow> string" where
  "digits n = (if n < 10 then [digit_char n] else digits (n div 10) @ [digit_char (n mod 10)])"

declare digits.simps [simp del]

definition py_str :: "int \<Rightarrow> string" where
  "py_str i = (if i < 0 then CHR ''-'' # digits (nat (- i)) else digits (nat i))"

text \<open>
  \<^verbatim>\<open>s.strip()\<close>: the characters for which \<^verbatim>\<open>str.isspace\<close> holds are removed at both
  ends. Below 256 these are the code points 9 to 13, 28 to 32, 133 (U+0085) and 160
  (U+00A0).
\<close>

definition is_space :: "char \<Rightarrow> bool" where
  "is_space c = (of_char c \<in> {9, 10, 11, 12, 13, 28, 29, 30, 31, 32, 133, 160 :: nat})"

definition py_strip :: "string \<Rightarrow> string" where
  "py_strip s = rev (dropWhile is_space (rev (dropWhile is_space s)))"

text \<open>
  \<^verbatim>\<open>int(s)\<close>: surrounding whitespace, an optional sign, then decimal digits, where
  single underscores may stand between digits. \<^const>\<open>None\<close> is \<^verbatim>\<open>ValueError\<close>. The
  limit of 4300 digits is left out of \<open>py_str\<close> and \<open>py_int\<close>: no count that a run
  saves comes near it, and a session file with more digits than that is outside this
  model.
\<close>

definition digit_value :: "char \<Rightarrow> nat option" where
  "digit_value c =
     (let k = of_char c :: nat in if 48 \<le> k \<and> k \<le> 57 then Some (k - 48) else None)"

fun parse_digits :: "string \<Rightarrow> nat \<Rightarrow> bool \<Rightarrow> nat option" where
  "parse_digits [] acc after_digit = (if after_digit then Some acc else None)"
| "parse_digits (c # cs) acc after_digit =
     (case digit_value c of
        Some d \<Rightarrow> parse_digits cs (10 * acc + d) True
      | None \<Rightarrow>
          if c = CHR ''_'' \<and> after_digit then parse_digits cs acc False else None)"

definition py_int :: "string \<Rightarrow> int option" where
  "py_int s =
     (case py_strip s of
        [] \<Rightarrow> None
      | c # cs \<Rightarrow>
          if c = CHR ''-'' then map_option (\<lambda>n. - int n) (parse_digits cs 0 False)
          else if c = CHR ''+'' then map_option int (parse_digits cs 0 False)
          else map_option int (parse_digits (c # cs) 0 False))"

subsection \<open>Files and the session store\<close>

text \<open>
  The files the program touches: a map from paths to contents. Opening, reading and
  writing are taken to succeed (no \<^verbatim>\<open>IOError\<close>), and buffered writes are taken as
  written.
\<close>

type_synonym filesystem = "string \<rightharpoonup> string"

text \<open>\<^verbatim>\<open>_save_progress\<close>: the session file is overwritten with \<^verbatim>\<open>str(count)\<close>.\<close>

definition save_progress :: "wordlist_generator \<Rightarrow> int \<Rightarrow> filesystem \<Rightarrow> filesystem" where
  "save_progress g count fs = fs(session_file g \<mapsto> py_str count)"

text \<open>
  \<^verbatim>\<open>_get_start_point\<close>: with \<^verbatim>\<open>--resume\<close> and a session file, the integer it holds;
  0 when it does not parse (the \<^verbatim>\<open>ValueError\<close> is caught) and in every other case.
\<close>

definition get_start_point :: "wordlist_generator \<Rightarrow> filesystem \<Rightarrow> int" where
  "get_start_point g fs =
     (if resume (gen_args g) then
        (case fs (session_file g) of
           Some text \<Rightarrow> (case py_int (py_strip text) of Some last_count \<Rightarrow> last_count | None \<Rightarrow> 0)
         | None \<Rightarrow> 0)
      else 0)"

subsection \<open>Writing the words\<close>

text \<open>\<^verbatim>\<open>open(self.args.output, file_mode)\<close>: \<^verbatim>\<open>'a'\<close> keeps the content, \<^verbatim>\<open>'w'\<close> truncates.\<close>

definition open_output :: "args \<Rightarrow> bool \<Rightarrow> filesystem \<Rightarrow> filesystem" where
  "open_output a append_mode fs =
     (if append_mode
      then fs(output_file a \<mapsto> (case fs (output_file a) of Some old \<Rightarrow> old | None \<Rightarrow> []))
      else fs(output_file a \<mapsto> []))"

text \<open>The line \<^verbatim>\<open>f"{prefix}{word}{suffix}\n"\<close>.\<close>

definition render_line :: "args \<Rightarrow> string \<Rightarrow> string" where
  "render_line a word = prefix a @ word @ suffix a @ [CHR 0x0A]"

definition write_line :: "args \<Rightarrow> string \<Rightarrow> filesystem \<Rightarrow> filesystem" where
  "write_line a line fs =
     fs(output_file a \<mapsto> (case fs (output_file a) of Some old \<Rightarrow> old | None \<Rightarrow> []) @ line)"

text \<open>
  The skip to the resume point, \<^verbatim>\<open>for _ in itertools.islice(generator, start_count): pass\<close>,
  for a positive \<open>n\<close>: \<^verbatim>\<open>islice\<close> raises \<^verbatim>\<open>ValueError\<close> for a stop beyond
  \<^verbatim>\<open>sys.maxsize\<close>; otherwise \<open>n\<close> items are pulled and dropped, and a generator with
  fewer items is pulled once more and raises its exception, if it has one.
\<close>

definition skip_ahead :: "'a generator \<Rightarrow> int \<Rightarrow> py_error + 'a generator" where
  "skip_ahead gen n =
     (if n > sys_maxsize then Inl ValueError
      else (case gen of
              (items, err) \<Rightarrow>
                if nat n \<le> length items then Inr (drop (nat n) items, err)
                else (case err of None \<Rightarrow> Inr ([], None) | Some e \<Rightarrow> Inl e)))"

text \<open>
  Setting up the progress bar, \<^verbatim>\<open>tqdm(total=limit, ..., initial=start_count)\<close>: the
  exception it raises, if any. The constructor draws the bar once, with \<open>n\<close> the
  initial count and no time elapsed, and \<^verbatim>\<open>tqdm.format_meter\<close> then evaluates in this
  order: \<^verbatim>\<open>total and n >= (total + 0.5)\<close>, which converts a non-zero integer total to a
  float and drops a total that \<open>n\<close> has passed; \<^verbatim>\<open>str(n)\<close>; \<^verbatim>\<open>str(total)\<close>, for a
  total that fits a float; and, when the total is still set and not zero,
  \<^verbatim>\<open>n / total\<close>, a true division whose correctly rounded result must fit a float. With
  an integer total the quotient is that large only for a negative \<open>n\<close>, and then the
  total has not been dropped. A float total is positive and taken to be finite, so it is
  dropped for every \<open>n\<close> that does not fit a float, and the division converts \<open>n\<close>
  otherwise.
\<close>

definition progress_bar :: "py_number \<Rightarrow> int \<Rightarrow> py_error option" where
  "progress_bar total_size initial =
     (case total_size of
        PyFloat \<Rightarrow>
          if str_too_long initial then Some ValueError
          else if initial \<le> - float_bound then Some OverflowError
          else None
      | PyInt t \<Rightarrow>
          if t \<noteq> 0 \<and> float_overflows t then Some OverflowError
          else if str_too_long initial then Some ValueError
          else if t \<noteq> 0 \<and> initial < 0 \<and> float_bound * \<bar>t\<bar> \<le> - initial
          then Some OverflowError
          else None)"

text \<open>
  The loop \<^verbatim>\<open>for word_tuple in generator\<close> of \<^verbatim>\<open>_write_to_file\<close>, over the items
  the generator still has. \<open>interrupt\<close> is the environment: \<open>Some k\<close> when
  \<^verbatim>\<open>KeyboardInterrupt\<close> arrives at the start of the loop's iteration \<open>k\<close> (from 0),
  \<^const>\<open>None\<close> when the user never interrupts.
\<close>

datatype loop_exit = Exhausted | LimitReached | Interrupted

fun write_loop ::
  "wordlist_generator \<Rightarrow> string list \<Rightarrow> int \<Rightarrow> int \<Rightarrow> nat option \<Rightarrow> filesystem
     \<Rightarrow> loop_exit \<times> int \<times> filesystem" where
  "write_loop g [] count lim interrupt fs = (Exhausted, count, fs)"
| "write_loop g (word # rest) count lim interrupt fs =
     (if interrupt = Some 0 then (Interrupted, count, fs)
      else if count \<ge> lim then (LimitReached, count, fs)
      else
        (let fs1 = write_line (gen_args g) (render_line (gen_args g) word) fs;
             count1 = count + 1;
             fs2 = (if count1 mod 10000 = 0 then save_progress g count1 fs1 else fs1)
         in write_loop g rest count1 lim (map_option (\<lambda>k. k - 1) interrupt) fs2))"

text \<open>
  \<^verbatim>\<open>_write_to_file\<close>: the output file is opened, the progress bar set up, the resume
  point skipped to, and the loop run. The result is \<^const>\<open>Completed\<close> when the function
  returns, \<^const>\<open>Paused\<close> after \<^verbatim>\<open>KeyboardInterrupt\<close> (progress saved,
  \<^verbatim>\<open>sys.exit(0)\<close>), and \<^const>\<open>Crashed\<close> when the progress bar, \<^verbatim>\<open>islice\<close> or the
  generator raises: the \<^verbatim>\<open>try\<close> catches \<^verbatim>\<open>KeyboardInterrupt\<close> and \<^verbatim>\<open>IOError\<close> only.
  The limit is a float only when the generator has no item and raises at its first pull,
  so that the loop never compares a count with it; the loop is then given the limit 0.
\<close>

definition loop_limit :: "py_number \<Rightarrow> int" where
  "loop_limit lim = (case lim of PyInt l \<Rightarrow> l | PyFloat \<Rightarrow> 0)"

definition write_to_file ::
  "wordlist_generator \<Rightarrow> string generator \<Rightarrow> int \<Rightarrow> py_number \<Rightarrow> nat option \<Rightarrow> filesystem
     \<Rightarrow> outcome \<times> filesystem" where
  "write_to_file g generator start_count lim interrupt fs =
     (let fs0 = open_output (gen_args g) (start_count > 0) fs
      in case progress_bar lim start_count of
           Some e \<Rightarrow> (Crashed e, fs0)
         | None \<Rightarrow>
             (case (if start_count > 0 then skip_ahead generator start_count
                    else Inr generator) of
                Inl e \<Rightarrow> (Crashed e, fs0)
              | Inr (items, err) \<Rightarrow>
                  (case write_loop g items start_count (loop_limit lim) interrupt fs0 of
                     (Interrupted, count, fs1) \<Rightarrow> (Paused, save_progress g count fs1)
                   | (LimitReached, count, fs1) \<Rightarrow> (Completed, fs1)
                   | (Exhausted, count, fs1) \<Rightarrow>
                       (case err of None \<Rightarrow> (Completed, fs1)
                        | Some e \<Rightarrow> (Crashed e, fs1)))))"

subsection \<open>The orchestrator\<close>

text \<open>
  The limit of \<^verbatim>\<open>run_generation\<close>, for an integer total:
  \<^verbatim>\<open>
    effective_limit = self.total_combinations
    if self.args.limit and self.args.limit < self.total_combinations:
        effective_limit = self.args.limit
  \<close>
\<close>

definition effective_limit :: "int option \<Rightarrow> int \<Rightarrow> int" where
  "effective_limit lim total_size =
     (if truthy_int lim \<and> the lim < total_size then the lim else total_size)"

text \<open>
  The limit that \<^verbatim>\<open>run_generation\<close> passes on. A float total is positive, so a
  negative limit is below it; a positive limit is compared with the float, whose value
  is not modelled, and the float is kept.
\<close>

definition run_limit :: "int option \<Rightarrow> py_number \<Rightarrow> py_number" where
  "run_limit lim total_size =
     (case total_size of
        PyInt t \<Rightarrow> PyInt (effective_limit lim t)
      | PyFloat \<Rightarrow> if truthy_int lim \<and> the lim < 0 then PyInt (the lim) else PyFloat)"

text \<open>
  \<^verbatim>\<open>run_generation\<close>: the start count, the limit, the two lines it prints (the total,
  and the limit when it is truthy), the write, and the removal of the session file, which
  happens only when \<^verbatim>\<open>_write_to_file\<close> returns.
\<close>

definition run_generation ::
  "wordlist_generator \<Rightarrow> nat option \<Rightarrow> filesystem \<Rightarrow> outcome \<times> filesystem" where
  "run_generation g interrupt fs =
     (let start_count = get_start_point g fs;
          lim = run_limit (limit (gen_args g)) (total_combinations g)
      in case format_number (total_combinations g) of
           Some e \<Rightarrow> (Crashed e, fs)
         | None \<Rightarrow>
             (case (if truthy_int (limit (gen_args g))
                    then format_number (PyInt (the (limit (gen_args g)))) else None) of
                Some e \<Rightarrow> (Crashed e, fs)
              | None \<Rightarrow>
                  (case write_to_file g (word_generator (gen_args g)) start_count lim
                          interrupt fs of
                     (Completed, fs1) \<Rightarrow> (Completed, fs1(session_file g := None))
                   | (out, fs1) \<Rightarrow> (out, fs1))))"

text \<open>
  \<^verbatim>\<open>main\<close>, from the parsed arguments on: \<^verbatim>\<open>parser.error\<close> unless permutations are
  asked for or both lengths are given, then the constructor, then the run.
\<close>

definition main :: "args \<Rightarrow> nat option \<Rightarrow> filesystem \<Rightarrow> outcome \<times> filesystem" where
  "main a interrupt fs =
     (if \<not> truthy_str (permutations a) \<and> (min_len a = None \<or> max_len a = None)
      then (UsageError, fs)
      else (case init a of
              Inl out \<Rightarrow> (out, fs)
            | Inr g \<Rightarrow> run_generation g interrupt fs))"

subsection \<open>The order of the specification, and the inputs of its examples\<close>

text \<open>
  The mixed-radix counter of the specification, written from its words: the word of
  length \<open>L\<close> at index \<open>k\<close> over the alphabet \<open>cs\<close>; the rightmost position is the
  least significant digit of \<open>k\<close> in base \<open>length cs\<close>, so it increments fastest.
\<close>

fun counter_word :: "'a list \<Rightarrow> nat \<Rightarrow> nat \<Rightarrow> 'a list" where
  "counter_word cs 0 k = []"
| "counter_word cs (Suc L) k = counter_word cs L (k div length cs) @ [cs ! (k mod length cs)]"

text \<open>\<^verbatim>\<open>BruteWordsCrank.py 1 2 01\<close>\<close>

definition binary_1_2 :: args where
  "binary_1_2 = default_args\<lparr>min_len := Some 1, max_len := Some 2, charset := ''01''\<rparr>"

text \<open>A generator object of a resuming run, for \<^verbatim>\<open>BruteWordsCrank.py ... --resume\<close>.\<close>

definition resumed_generator :: wordlist_generator where
  "resumed_generator =
     \<lparr>gen_args = default_args\<lparr>resume := True\<rparr>, total_combinations = PyInt 100000,
      session_file = ''wordlist.txt.session''\<rparr>"

text \<open>
  The generator object of \<^verbatim>\<open>BruteWordsCrank.py 1 2 01\<close>, and the run
  \<^verbatim>\<open>BruteWordsCrank.py 2 2 0123456789 --limit 3\<close> over a space of 100 words.
\<close>

definition binary_1_2_generator :: wordlist_generator where
  "binary_1_2_generator =
     \<lparr>gen_args = binary_1_2, total_combinations = PyInt 6,
      session_file = ''wordlist.txt.session''\<rparr>"



text \<open>
  Further inputs of the examples: \<^verbatim>\<open>BruteWordsCrank.py -1 0 abc\<close>; the 95 printable
  ASCII characters at length 20; \<^verbatim>\<open>BruteWordsCrank.py 1 2 ""\<close>;
  \<^verbatim>\<open>BruteWordsCrank.py 0 1 ab -p "<" -s ">"\<close>; \<^verbatim>\<open>BruteWordsCrank.py -x ab\<close>, alone and
  with the lengths \<^verbatim>\<open>1 1\<close>; \<^verbatim>\<open>BruteWordsCrank.py 1 2 01 -l 0\<close>.
\<close>

definition negative_length :: args where
  "negative_length = default_args\<lparr>min_len := Some (- 1), max_len := Some 0, charset := ''abc''\<rparr>"

definition printable_ascii :: string where
  "printable_ascii = map char_of [32..<127 :: nat]"

definition printable_20 :: args where
  "printable_20 = default_args\<lparr>min_len := Some 20, max_len := Some 20, charset := printable_ascii\<rparr>"



definition permutations_ab :: args where
  "permutations_ab = default_args\<lparr>permutations := Some ''ab''\<rparr>"

definition permutations_ab_1_1 :: args where
  "permutations_ab_1_1 = permutations_ab\<lparr>min_len := Some 1, max_len := Some 1\<rparr>"

definition binary_limit_0 :: args where
  "binary_limit_0 = binary_1_2\<lparr>limit := Some 0\<rparr>"



section \<open>Properties\<close>

subsection \<open>The limits of the interpreter\<close>

lemma float_bound_large: "2 ^ 64 \<le> float_bound"
proof -
  have a: "(2::int) ^ 970 \<le> 2 ^ 1023" by (rule power_increasing) simp_all
  have b: "(2::int) ^ 64 \<le> 2 ^ 1023" by (rule power_increasing) simp_all
  have c: "(2::int) ^ 1024 = 2 ^ 1023 + 2 ^ 1023" by simp
  show ?thesis unfolding float_bound_def using a b c by linarith
qed

lemma str_digits_bound_large: "2 ^ 64 \<le> str_digits_bound"
proof -
  have a: "(10::int) ^ 20 \<le> 10 ^ 4300" by (rule power_increasing) simp_all
  have b: "(2::int) ^ 64 \<le> 10 ^ 20" by simp
  show ?thesis unfolding str_digits_bound_def using a b by (rule order_trans[rotated])
qed

lemma small_fits_float: "\<bar>i\<bar> < 2 ^ 64 \<Longrightarrow> \<not> float_overflows i"
  using float_bound_large by (simp add: float_overflows_def)

lemma small_is_short: "\<bar>i\<bar> < 2 ^ 64 \<Longrightarrow> \<not> str_too_long i"
  using str_digits_bound_large by (simp add: str_too_long_def)

lemma sys_maxsize_small: "sys_maxsize < 2 ^ 64"
  by (simp add: sys_maxsize_def)

lemma float_bound_short: "float_bound \<le> str_digits_bound"
proof -
  have a: "float_bound \<le> 2 ^ 1024" by (simp add: float_bound_def)
  have b: "(2::int) ^ 1024 \<le> 10 ^ 1024" by (rule power_mono) simp_all
  have c: "(10::int) ^ 1024 \<le> 10 ^ 4300" by (rule power_increasing) simp_all
  from b c have "(2::int) ^ 1024 \<le> 10 ^ 4300" by (rule order_trans)
  with a show ?thesis unfolding str_digits_bound_def by (rule order_trans)
qed

lemma fits_float_is_short: "\<not> float_overflows i \<Longrightarrow> \<not> str_too_long i"
  using float_bound_short by (simp add: float_overflows_def str_too_long_def)

lemma progress_bar_nonneg:
  assumes "0 \<le> s" and "s \<le> sys_maxsize" and "l = 0 \<or> \<not> float_overflows l"
  shows "progress_bar (PyInt l) s = None"
proof -
  have "\<bar>s\<bar> < 2 ^ 64" using assms(1,2) sys_maxsize_small by simp
  then have "\<not> str_too_long s" by (rule small_is_short)
  with assms(1,3) show ?thesis by (auto simp: progress_bar_def)
qed

subsection \<open>\<^verbatim>\<open>itertools.product\<close>: sizes and the order of its items\<close>

lemma length_product_step: "length (product_step r p) = length r * length p"
  by (induction r) (simp_all add: product_step_def)



lemma product_repeat_0: "product_repeat cs 0 = [[]]"
  by (simp add: product_repeat_def itertools_product_def)

lemma product_repeat_Suc: "product_repeat cs (Suc L) = product_step (product_repeat cs L) cs"
proof -
  have "replicate (Suc L) cs = replicate L cs @ [cs]"
    by (simp add: replicate_append_same)
  then show ?thesis
    by (simp add: product_repeat_def itertools_product_def del: replicate_Suc)
qed

lemma length_product_repeat: "length (product_repeat cs L) = length cs ^ L"
  by (induction L) (simp_all add: product_repeat_0 product_repeat_Suc length_product_step)

lemma nth_product_step:
  "k < length r * length p \<Longrightarrow>
     product_step r p ! k = r ! (k div length p) @ [p ! (k mod length p)]"
proof (induction r arbitrary: k)
  case Nil
  then show ?case by simp
next
  case (Cons x r)
  have step: "product_step (x # r) p = map (\<lambda>y. x @ [y]) p @ product_step r p"
    by (simp add: product_step_def)
  show ?case
  proof (cases "k < length p")
    case True
    then show ?thesis by (simp add: step nth_append)
  next
    case False
    then have ge: "length p \<le> k" by simp
    from Cons.prems have "k - length p < length r * length p" using ge by simp
    then have ih: "product_step r p ! (k - length p)
        = r ! ((k - length p) div length p) @ [p ! ((k - length p) mod length p)]"
      by (rule Cons.IH)
    have pos: "0 < length p" using Cons.prems by (cases "length p") simp_all
    have d: "k div length p = Suc ((k - length p) div length p)"
      using ge pos by (simp add: le_div_geq)
    have m: "k mod length p = (k - length p) mod length p"
      using ge by (simp add: le_mod_geq)
    show ?thesis using False ih by (simp add: step nth_append d m)
  qed
qed

lemma nth_product_repeat:
  "k < length cs ^ L \<Longrightarrow> product_repeat cs L ! k = counter_word cs L k"
proof (induction L arbitrary: k)
  case 0
  then show ?case by (simp add: product_repeat_0)
next
  case (Suc L)
  have lt: "k < length (product_repeat cs L) * length cs"
    using Suc.prems by (simp add: length_product_repeat mult.commute)
  have pos: "0 < length cs" using Suc.prems by (cases "length cs") simp_all
  have "k div length cs < length cs ^ L"
    using Suc.prems pos by (simp add: less_mult_imp_div_less mult.commute)
  then have "product_repeat cs L ! (k div length cs) = counter_word cs L (k div length cs)"
    by (rule Suc.IH)
  then show ?case
    using nth_product_step[OF lt] by (simp add: product_repeat_Suc)
qed

lemma chain_products_nonneg:
  "\<forall>l \<in> set ls. 0 \<le> l \<Longrightarrow>
     chain_products cs ls = (concat (map (\<lambda>l. product_repeat cs (nat l)) ls), None)"
  by (induction ls) simp_all

lemma chain_products_negative_first:
  "l < 0 \<Longrightarrow> chain_products cs (l # ls) = ([], Some ValueError)"
  by simp

subsection \<open>Totals and generators\<close>

lemma product_repeat_counter:
  "product_repeat cs L = map (counter_word cs L) [0..<length cs ^ L]"
  by (rule nth_equalityI) (simp_all add: length_product_repeat nth_product_repeat)

lemma chain_products_None_nonneg:
  "chain_products cs ls = (ws, None) \<Longrightarrow> \<forall>l \<in> set ls. 0 \<le> l"
  by (induction ls arbitrary: ws) (auto split: if_splits prod.splits)

lemma sum_powers_nonneg:
  "\<forall>i \<in> set is. 0 \<le> i \<Longrightarrow>
     sum_powers b is (PyInt acc) = Inr (PyInt (acc + sum_list (map (\<lambda>i. b ^ nat i) is)))"
  by (induction "is" arbitrary: acc) (simp_all add: py_pow_def add.assoc)




lemma sum_list_upto: "sum_list (map f [lo..hi]) = (\<Sum>L = lo..hi. f L)"
  by (simp add: sum_list_distinct_conv_sum_set)



lemma init_Inr:
  "init a = Inr g \<Longrightarrow>
     gen_args g = a \<and> session_file g = output_file a @ ''.session''
     \<and> estimate_combinations a = Inr (total_combinations g)
     \<and> (\<exists>lo hi. min_len a = Some lo \<and> max_len a = Some hi \<and> lo \<le> hi)"
  by (auto simp: init_def validate_args_def split: sum.splits option.splits if_splits)


lemma range_total_nonneg:
  assumes "\<not> truthy_str (permutations a)" and "\<not> truthy_str (pattern a)"
    and "min_len a = Some lo" and "max_len a = Some hi" and "0 \<le> lo"
  shows "estimate_combinations a = Inr (PyInt (\<Sum>L = lo..hi. int (length (charset a)) ^ nat L))"
proof -
  have nn: "\<forall>i \<in> set [lo..hi]. 0 \<le> i" using assms(5) by auto
  show ?thesis
    using assms(1-4) sum_powers_nonneg[OF nn, of "int (length (charset a))" 0]
    by (simp add: estimate_combinations_def sum_list_upto)
qed

subsection \<open>The order of range mode\<close>

lemma binary_1_2_words:
  "word_generator binary_1_2 = ([''0'', ''1'', ''00'', ''01'', ''10'', ''11''], None)"
  by (simp add: binary_1_2_def default_args_def word_generator_def generate_combinations_def
      truthy_str_def upto.simps product_repeat_def itertools_product_def product_step_def
      eval_nat_numeral)

lemma binary_1_2_total: "estimate_combinations binary_1_2 = Inr (PyInt 6)"
  by (simp add: binary_1_2_def default_args_def estimate_combinations_def truthy_str_def
      upto.simps py_pow_def)

text \<open>
  Claim C3. In range mode the words come by ascending length from \<open>min_len\<close> to
  \<open>max_len\<close>, and the words of one length \<open>L\<close> are the mixed-radix counter over the
  charset, at the indices \<open>0, 1, \<dots>, |charset|^L - 1\<close> in this order, the rightmost
  position incrementing fastest. For the charset \<^verbatim>\<open>01\<close> and the lengths 1 to 2 the
  sequence is \<^verbatim>\<open>0, 1, 00, 01, 10, 11\<close> and the total is 6.
\<close>

theorem range_enumeration_order:
  assumes "\<not> truthy_str (permutations a)" and "\<not> truthy_str (pattern a)"
    and "min_len a = Some lo" and "max_len a = Some hi"
    and "word_generator a = (ws, None)"
  shows "ws = concat (map (\<lambda>L. map (counter_word (charset a) (nat L))
                                    [0..<length (charset a) ^ nat L]) [lo..hi])
       \<and> word_generator binary_1_2 = ([''0'', ''1'', ''00'', ''01'', ''10'', ''11''], None)
       \<and> estimate_combinations binary_1_2 = Inr (PyInt 6)"
proof -
  from assms have chain: "chain_products (charset a) [lo..hi] = (ws, None)"
    by (simp add: word_generator_def generate_combinations_def)
  then have "\<forall>l \<in> set [lo..hi]. 0 \<le> l" by (rule chain_products_None_nonneg)
  from chain_products_nonneg[OF this, of "charset a"] chain
  have "ws = concat (map (\<lambda>l. product_repeat (charset a) (nat l)) [lo..hi])" by simp
  then show ?thesis
    by (simp add: product_repeat_counter binary_1_2_words binary_1_2_total)
qed

theorem range_enumeration_order_witness:
  "\<not> truthy_str (permutations binary_1_2) \<and> \<not> truthy_str (pattern binary_1_2)
   \<and> min_len binary_1_2 = Some 1 \<and> max_len binary_1_2 = Some 2
   \<and> word_generator binary_1_2 = ([''0'', ''1'', ''00'', ''01'', ''10'', ''11''], None)
   \<and> [''0'', ''1'', ''00'', ''01'', ''10'', ''11'']
       = concat (map (\<lambda>L. map (counter_word (charset binary_1_2) (nat L))
                              [0..<length (charset binary_1_2) ^ nat L]) [1..2])"
proof -
  have h1: "\<not> truthy_str (permutations binary_1_2)"
    and h2: "\<not> truthy_str (pattern binary_1_2)"
    and h3: "min_len binary_1_2 = Some 1" and h4: "max_len binary_1_2 = Some 2"
    by (simp_all add: binary_1_2_def default_args_def truthy_str_def)
  from range_enumeration_order[OF h1 h2 h3 h4 binary_1_2_words] h1 h2 h3 h4
    binary_1_2_words
  show ?thesis by blast
qed

subsection \<open>The session store: decimal text round trip\<close>

lemma of_char_digit_char: "d < 10 \<Longrightarrow> of_char (digit_char d) = (48 + d :: nat)"
  by (simp add: digit_char_def of_char_of)

lemma digit_value_digit_char: "d < 10 \<Longrightarrow> digit_value (digit_char d) = Some d"
  by (simp add: digit_value_def of_char_digit_char)

lemma digit_char_not_space: "d < 10 \<Longrightarrow> \<not> is_space (digit_char d)"
  by (simp add: is_space_def of_char_digit_char)

lemma digit_char_not_sign:
  assumes "d < 10"
  shows "digit_char d \<noteq> CHR ''-'' \<and> digit_char d \<noteq> CHR ''+''"
proof -
  have "of_char (digit_char d) \<noteq> (of_char (CHR ''-'') :: nat)"
    and "of_char (digit_char d) \<noteq> (of_char (CHR ''+'') :: nat)"
    using assms by (simp_all add: of_char_digit_char)
  then show ?thesis by auto
qed

lemma parse_digits_digits:
  "parse_digits (digits n @ rest) acc after_digit
     = parse_digits rest (acc * 10 ^ length (digits n) + n) True"
proof (induction n arbitrary: rest acc after_digit rule: digits.induct)
  case (1 n)
  show ?case
  proof (cases "n < 10")
    case True
    then have "digits n = [digit_char n]" by (subst digits.simps) simp
    with True show ?thesis
      by (simp add: digit_value_digit_char mult.commute)
  next
    case False
    have dn: "digits n = digits (n div 10) @ [digit_char (n mod 10)]"
      using False by (subst digits.simps) simp
    have "parse_digits (digits n @ rest) acc after_digit
        = parse_digits (digit_char (n mod 10) # rest)
            (acc * 10 ^ length (digits (n div 10)) + n div 10) True"
      using "1.IH"[OF False, of "digit_char (n mod 10) # rest" acc after_digit]
      by (simp add: dn)
    also have "\<dots> = parse_digits rest
        (10 * (acc * 10 ^ length (digits (n div 10)) + n div 10) + n mod 10) True"
      by (simp add: digit_value_digit_char)
    also have "10 * (acc * 10 ^ length (digits (n div 10)) + n div 10) + n mod 10
        = acc * 10 ^ length (digits n) + n"
      by (simp add: dn algebra_simps)
    finally show ?thesis .
  qed
qed

lemma parse_digits_roundtrip: "parse_digits (digits n) 0 False = Some n"
  using parse_digits_digits[of n "[]" 0 False] by simp

lemma digits_nonempty: "digits n \<noteq> []"
  by (subst digits.simps) simp

lemma hd_digits: "\<exists>d < 10. hd (digits n) = digit_char d"
proof (induction n rule: digits.induct)
  case (1 n)
  show ?case
  proof (cases "n < 10")
    case True
    then show ?thesis by (subst digits.simps) auto
  next
    case False
    then have "hd (digits n) = hd (digits (n div 10))"
      by (subst digits.simps) (simp add: digits_nonempty)
    with "1.IH"[OF False] show ?thesis by simp
  qed
qed

lemma last_digits: "last (digits n) = digit_char (n mod 10)"
  by (subst digits.simps) simp

lemma py_strip_clean:
  assumes "s \<noteq> []" and "\<not> is_space (hd s)" and "\<not> is_space (last s)"
  shows "py_strip s = s"
proof -
  from assms(1,2) have front: "dropWhile is_space s = s" by (cases s) simp_all
  from assms(1,3) have "dropWhile is_space (rev s) = rev s"
    by (cases "rev s") (simp_all add: last_rev[symmetric] hd_rev)
  with front show ?thesis by (simp add: py_strip_def)
qed

lemma py_strip_py_str: "py_strip (py_str i) = py_str i"
proof (rule py_strip_clean)
  show "py_str i \<noteq> []" by (simp add: py_str_def digits_nonempty)
  obtain d where d: "d < 10" "hd (digits (nat i)) = digit_char d" using hd_digits by blast
  have "\<not> is_space (CHR ''-'')" by (simp add: is_space_def)
  then show "\<not> is_space (hd (py_str i))"
    using d hd_digits[of "nat (- i)"] by (auto simp: py_str_def digit_char_not_space)
  show "\<not> is_space (last (py_str i))"
    by (simp add: py_str_def digits_nonempty last_digits digit_char_not_space)
qed

lemma hd_digits_not_sign:
  "hd (digits n) \<noteq> CHR ''-'' \<and> hd (digits n) \<noteq> CHR ''+''"
proof -
  obtain d where "d < 10" "hd (digits n) = digit_char d" using hd_digits by blast
  then show ?thesis using digit_char_not_sign by metis
qed

lemma py_int_py_str: "py_int (py_str i) = Some i"
proof (cases "i < 0")
  case True
  have "py_strip (CHR ''-'' # digits (nat (- i))) = CHR ''-'' # digits (nat (- i))"
    using py_strip_py_str[of i] True by (simp add: py_str_def)
  with True show ?thesis
    by (simp add: py_int_def py_str_def parse_digits_roundtrip)
next
  case False
  obtain c cs where cs: "digits (nat i) = c # cs"
    using digits_nonempty by (cases "digits (nat i)") auto
  have strip: "py_strip (c # cs) = c # cs"
    using py_strip_py_str[of i] False cs by (simp add: py_str_def)
  have "c \<noteq> CHR ''-''" "c \<noteq> CHR ''+''"
    using hd_digits_not_sign[of "nat i"] cs by simp_all
  then show ?thesis
    using False cs strip parse_digits_roundtrip[of "nat i"]
    by (simp add: py_int_def py_str_def)
qed

lemma get_start_point_no_resume: "\<not> resume (gen_args g) \<Longrightarrow> get_start_point g fs = 0"
  by (simp add: get_start_point_def)

text \<open>
  Claim C8. Persisting a count \<open>C\<close> with \<^verbatim>\<open>_save_progress\<close> and reading the resume
  offset back with \<^verbatim>\<open>_get_start_point\<close>, for the same output target, yields exactly
  \<open>C\<close>. The program reads the session store only when \<^verbatim>\<open>--resume\<close> is given, so the
  read is the one of a resuming run. The count may be any integer, and the target any
  path.
\<close>

theorem session_round_trip:
  assumes "resume (gen_args g)"
  shows "get_start_point g (save_progress g C fs) = C"
  using assms
  by (simp add: get_start_point_def save_progress_def py_strip_py_str py_int_py_str)

theorem session_round_trip_witness:
  "resume (gen_args resumed_generator)
   \<and> get_start_point resumed_generator (save_progress resumed_generator 20000 Map.empty) = 20000"
proof -
  have h: "resume (gen_args resumed_generator)"
    by (simp add: resumed_generator_def default_args_def)
  from session_round_trip[OF h] h show ?thesis by simp
qed

subsection \<open>The write loop and the run without interruption\<close>

lemma write_loop_no_interrupt:
  assumes "write_loop g ws count lim None fs = (ex, c', fs')"
    and "session_file g \<noteq> output_file (gen_args g)"
    and "fs (output_file (gen_args g)) = Some old"
  shows "ex \<noteq> Interrupted
       \<and> fs' (output_file (gen_args g))
           = Some (old @ concat (map (render_line (gen_args g)) (take (nat (lim - count)) ws)))
       \<and> (\<forall>p. p \<noteq> output_file (gen_args g) \<and> p \<noteq> session_file g \<longrightarrow> fs' p = fs p)"
  using assms
proof (induction ws arbitrary: count fs old)
  case Nil
  then show ?case by auto
next
  case (Cons w ws)
  show ?case
  proof (cases "count \<ge> lim")
    case True
    with Cons.prems show ?thesis by auto
  next
    case False
    define fs1 where "fs1 = write_line (gen_args g) (render_line (gen_args g) w) fs"
    define fs2 where
      "fs2 = (if (count + 1) mod 10000 = 0 then save_progress g (count + 1) fs1 else fs1)"
    have out2: "fs2 (output_file (gen_args g)) = Some (old @ render_line (gen_args g) w)"
      using Cons.prems(2,3) by (simp add: fs2_def fs1_def write_line_def save_progress_def)
    have frame2: "\<forall>p. p \<noteq> output_file (gen_args g) \<and> p \<noteq> session_file g \<longrightarrow> fs2 p = fs p"
      by (simp add: fs2_def fs1_def write_line_def save_progress_def)
    from Cons.prems(1) False
    have rec: "write_loop g ws (count + 1) lim None fs2 = (ex, c', fs')"
      by (simp add: fs2_def fs1_def Let_def split: if_splits)
    note ih = Cons.IH[OF rec Cons.prems(2) out2]
    have n: "nat (lim - count) = Suc (nat (lim - (count + 1)))" using False by simp
    from ih frame2 show ?thesis by (simp add: n)
  qed
qed

lemma write_to_file_no_interrupt:
  assumes "session_file g \<noteq> output_file (gen_args g)"
    and "nat start_count \<le> length ws \<or> err = None"
    and "progress_bar (PyInt lim) start_count = None"
    and "start_count \<le> sys_maxsize"
  shows "\<exists>out fs'. write_to_file g (ws, err) start_count (PyInt lim) None fs = (out, fs')
       \<and> out \<noteq> Paused
       \<and> (err = None \<longrightarrow> out = Completed)
       \<and> fs' (output_file (gen_args g))
           = Some ((if start_count > 0
                    then (case fs (output_file (gen_args g)) of Some old \<Rightarrow> old | None \<Rightarrow> [])
                    else [])
                   @ concat (map (render_line (gen_args g))
                       (take (nat (lim - start_count)) (drop (nat start_count) ws))))
       \<and> (\<forall>p. p \<noteq> output_file (gen_args g) \<and> p \<noteq> session_file g \<longrightarrow> fs' p = fs p)"
proof -
  define fs0 where "fs0 = open_output (gen_args g) (start_count > 0) fs"
  define base where "base = (if start_count > 0
                    then (case fs (output_file (gen_args g)) of Some old \<Rightarrow> old | None \<Rightarrow> [])
                    else [])"
  have out0: "fs0 (output_file (gen_args g)) = Some base"
    by (simp add: fs0_def base_def open_output_def)
  have frame0: "\<forall>p. p \<noteq> output_file (gen_args g) \<longrightarrow> fs0 p = fs p"
    by (simp add: fs0_def open_output_def)
  define items where "items = drop (nat start_count) ws"
  have skip: "(if start_count > 0 then skip_ahead (ws, err) start_count else Inr (ws, err))
      = Inr (items, err)"
    using assms(2,4) by (auto simp: skip_ahead_def items_def)
  obtain ex c' fs1 where loop: "write_loop g items start_count lim None fs0 = (ex, c', fs1)"
    by (cases "write_loop g items start_count lim None fs0") auto
  note facts = write_loop_no_interrupt[OF loop assms(1) out0]
  have wtf: "write_to_file g (ws, err) start_count (PyInt lim) None fs
      = (case ex of Interrupted \<Rightarrow> (Paused, save_progress g c' fs1)
         | LimitReached \<Rightarrow> (Completed, fs1)
         | Exhausted \<Rightarrow> (case err of None \<Rightarrow> (Completed, fs1) | Some e \<Rightarrow> (Crashed e, fs1)))"
    unfolding write_to_file_def Let_def fs0_def[symmetric] skip assms(3) loop_limit_def
    by (cases ex) (simp_all add: loop)
  show ?thesis
  proof (cases ex)
    case Interrupted
    with facts show ?thesis by simp
  next
    case LimitReached
    with wtf facts frame0 show ?thesis by (simp add: base_def items_def)
  next
    case Exhausted
    with wtf facts frame0 show ?thesis
      by (cases err) (simp_all add: base_def items_def)
  qed
qed


lemma init_session_path:
  "init a = Inr g \<Longrightarrow> session_file g \<noteq> output_file (gen_args g)"
  by (auto dest!: init_Inr)

lemma main_init: "init a = Inr g \<Longrightarrow> main a interrupt fs = run_generation g interrupt fs"
  by (auto simp: main_def dest!: init_Inr)


lemma effective_limit_none: "effective_limit None t = t"
  by (simp add: effective_limit_def truthy_int_def)

lemma effective_limit_zero: "effective_limit (Some 0) t = t"
  by (simp add: effective_limit_def truthy_int_def)

lemma run_generation_no_interrupt:
  assumes "init a = Inr g" and "word_generator a = (ws, None)"
    and "total_combinations g = PyInt t"
    and "\<not> str_too_long t"
    and "\<forall>l. limit a = Some l \<longrightarrow> \<not> str_too_long l"
    and "progress_bar (PyInt (effective_limit (limit a) t)) (get_start_point g fs) = None"
    and "get_start_point g fs \<le> sys_maxsize"
  shows "\<exists>fs'. run_generation g None fs = (Completed, fs')
       \<and> fs' (session_file g) = None
       \<and> fs' (output_file a)
           = Some ((if get_start_point g fs > 0
                    then (case fs (output_file a) of Some old \<Rightarrow> old | None \<Rightarrow> [])
                    else [])
                   @ concat (map (render_line a)
                       (take (nat (effective_limit (limit a) t - get_start_point g fs))
                          (drop (nat (get_start_point g fs)) ws))))
       \<and> (\<forall>p. p \<noteq> output_file a \<and> p \<noteq> session_file g \<longrightarrow> fs' p = fs p)"
proof -
  from assms(1) have ga: "gen_args g = a" by (auto dest!: init_Inr)
  have ne: "session_file g \<noteq> output_file (gen_args g)" using assms(1) by (rule init_session_path)
  have ne': "output_file a \<noteq> session_file g" using ne ga by auto
  obtain out fs1 where
    w: "write_to_file g (ws, None) (get_start_point g fs) (PyInt (effective_limit (limit a) t))
          None fs = (out, fs1)"
    and c: "out = Completed"
    and o: "fs1 (output_file (gen_args g))
           = Some ((if get_start_point g fs > 0
                    then (case fs (output_file (gen_args g)) of Some old \<Rightarrow> old | None \<Rightarrow> [])
                    else [])
                   @ concat (map (render_line (gen_args g))
                       (take (nat (effective_limit (limit a) t - get_start_point g fs))
                          (drop (nat (get_start_point g fs)) ws))))"
    and f: "\<forall>p. p \<noteq> output_file (gen_args g) \<and> p \<noteq> session_file g \<longrightarrow> fs1 p = fs p"
    using write_to_file_no_interrupt[OF ne _ assms(6,7), of ws None fs]
    by auto
  have printed: "(if truthy_int (limit a) then format_number (PyInt (the (limit a))) else None)
      = None"
    using assms(5) by (cases "limit a") (simp_all add: format_number_def truthy_int_def)
  have total_printed: "format_number (PyInt t) = None"
    using assms(4) by (simp add: format_number_def)
  have "run_generation g None fs = (Completed, fs1(session_file g := None))"
    unfolding run_generation_def Let_def ga assms(2,3) total_printed printed run_limit_def
    using w c by simp
  with o f ne' show ?thesis by (simp add: ga)
qed



subsection \<open>The examples of skip-ahead and of the limit\<close>




lemma length_printable_ascii: "length printable_ascii = 95"
  by (simp add: printable_ascii_def)











subsection \<open>Every mode yields as many items as the total says\<close>





lemma negative_length_run:
  "validate_args negative_length = Inr ()
   \<and> estimate_combinations negative_length = Inr PyFloat
   \<and> word_generator negative_length = ([], Some ValueError)
   \<and> fst (main negative_length None Map.empty) = Crashed ValueError"
proof -
  have v: "validate_args negative_length = Inr ()"
    by (simp add: negative_length_def default_args_def validate_args_def)
  have e: "estimate_combinations negative_length = Inr PyFloat"
    by (simp add: negative_length_def default_args_def estimate_combinations_def truthy_str_def
        upto.simps py_pow_def small_fits_float)
  have w: "word_generator negative_length = ([], Some ValueError)"
    by (simp add: negative_length_def default_args_def word_generator_def
        generate_combinations_def truthy_str_def upto.simps)
  have i: "init negative_length
      = Inr \<lparr>gen_args = negative_length, total_combinations = PyFloat,
             session_file = output_file negative_length @ ''.session''\<rparr>"
    by (simp add: init_def v e)
  have l: "limit negative_length = None"
    by (simp add: negative_length_def default_args_def)
  have bar: "progress_bar PyFloat 0 = None"
    using float_bound_large by (simp add: progress_bar_def small_is_short)
  have m: "fst (main negative_length None Map.empty) = Crashed ValueError"
    by (simp add: main_init[OF i] run_generation_def Let_def w write_to_file_def
        get_start_point_def format_number_def run_limit_def truthy_int_def l bar
        loop_limit_def)
  from v e w m show ?thesis by simp
qed


text \<open>
  Claim C6. In range mode with a non-negative \<open>min_len\<close> the total is the exact integer
  \<open>\<Sum>L = min_len..max_len. |charset|^L\<close>, computed on unbounded integers: nothing wraps.
  For a charset of 95 symbols at length 20 it is \<open>95^20\<close>, beyond \<open>2^64\<close>. With a
  negative \<open>min_len\<close> the power \<^verbatim>\<open>charset_len ** i\<close> is no integer any more (a float,
  or \<^verbatim>\<open>ZeroDivisionError\<close> for an empty charset), as the counterexample shows.
\<close>

theorem total_size_exact:
  assumes "\<not> truthy_str (permutations a)" and "\<not> truthy_str (pattern a)"
    and "min_len a = Some lo" and "max_len a = Some hi" and "0 \<le> lo"
  shows "estimate_combinations a
     = Inr (PyInt (\<Sum>L = lo..hi. int (length (charset a)) ^ nat L))"
  using assms by (rule range_total_nonneg)

theorem total_size_exact_witness:
  "\<not> truthy_str (permutations printable_20) \<and> \<not> truthy_str (pattern printable_20)
   \<and> min_len printable_20 = Some 20 \<and> max_len printable_20 = Some 20 \<and> (0::int) \<le> 20
   \<and> length (charset printable_20) = 95
   \<and> estimate_combinations printable_20 = Inr (PyInt 3584859224085422343574104404449462890625)
   \<and> (2::int) ^ 64 < 3584859224085422343574104404449462890625"
proof -
  have h1: "\<not> truthy_str (permutations printable_20)"
    and h2: "\<not> truthy_str (pattern printable_20)"
    and h3: "min_len printable_20 = Some 20" and h4: "max_len printable_20 = Some 20"
    and cs: "charset printable_20 = printable_ascii"
    by (simp_all add: printable_20_def default_args_def truthy_str_def)
  have h5: "(0::int) \<le> 20" by simp
  have "estimate_combinations printable_20
      = Inr (PyInt 3584859224085422343574104404449462890625)"
    using total_size_exact[OF h1 h2 h3 h4 h5]
    by (simp add: cs length_printable_ascii)
  with h1 h2 h3 h4 cs show ?thesis by (simp add: length_printable_ascii)
qed

theorem total_size_negative_length_counterexample:
  "validate_args negative_length = Inr ()
   \<and> estimate_combinations negative_length = Inr PyFloat"
  using negative_length_run by simp

subsection \<open>The empty charset\<close>









subsection \<open>Length zero, permutations without lengths, and the limit 0\<close>





text \<open>
  Claim C1. \<^verbatim>\<open>BruteWordsCrank.py --permutations ab\<close>, with no lengths given, passes the
  check of \<^verbatim>\<open>main\<close> and then dies in \<^verbatim>\<open>validate_args\<close>, which compares
  \<^verbatim>\<open>None > None\<close>: the run ends in \<^verbatim>\<open>TypeError\<close> before any word is produced and
  the files are untouched. (With lengths given the same permutations run, see
  \<open>permutations_with_lengths_runs\<close> below.)
\<close>

theorem permutations_without_lengths_crashes:
  "main permutations_ab interrupt fs = (Crashed TypeError, fs)"
  by (simp add: main_def init_def validate_args_def permutations_ab_def default_args_def
      truthy_str_def)

lemma permutations_ab_items: "itertools_permutations ''ab'' = [''ab'', ''ba'']"
  by (simp add: itertools_permutations_def product_repeat_def itertools_product_def
      product_step_def eval_nat_numeral upt_conv_Cons)

lemma permutations_with_lengths_runs:
  "\<exists>g fs'. init permutations_ab_1_1 = Inr g \<and> total_combinations g = PyInt 2
      \<and> main permutations_ab_1_1 None Map.empty = (Completed, fs')
      \<and> fs' ''wordlist.txt'' = Some ''ab\<newline>ba\<newline>''"
proof -
  define g where "g = \<lparr>gen_args = permutations_ab_1_1, total_combinations = PyInt 2,
                        session_file = ''wordlist.txt.session''\<rparr>"
  have f: "permutations permutations_ab_1_1 = Some ''ab''"
    "min_len permutations_ab_1_1 = Some 1" "max_len permutations_ab_1_1 = Some 1"
    "output_file permutations_ab_1_1 = ''wordlist.txt''" "limit permutations_ab_1_1 = None"
    "\<not> resume permutations_ab_1_1"
    "prefix permutations_ab_1_1 = []" "suffix permutations_ab_1_1 = []"
    by (simp_all add: permutations_ab_1_1_def permutations_ab_def default_args_def)
  have est: "estimate_combinations permutations_ab_1_1 = Inr (PyInt 2)"
    by (simp add: estimate_combinations_def f truthy_str_def permutations_ab_items)
  have init: "init permutations_ab_1_1 = Inr g"
    by (simp add: init_def validate_args_def f est g_def)
  have gen: "word_generator permutations_ab_1_1 = ([''ab'', ''ba''], None)"
    by (simp add: word_generator_def generate_permutations_def f truthy_str_def
        permutations_ab_items)
  have tg: "total_combinations g = PyInt 2" by (simp add: g_def)
  have s: "get_start_point g Map.empty = 0" by (simp add: get_start_point_def)
  have short_t: "\<not> str_too_long 2" by (rule small_is_short) simp
  have short_l: "\<forall>l. limit permutations_ab_1_1 = Some l \<longrightarrow> \<not> str_too_long l"
    by (simp add: f)
  have fits: "\<not> float_overflows 2" by (rule small_fits_float) simp
  have bar: "progress_bar (PyInt (effective_limit (limit permutations_ab_1_1) 2))
      (get_start_point g Map.empty) = None"
    unfolding s f effective_limit_none using fits
    by (intro progress_bar_nonneg) (simp_all add: sys_maxsize_def)
  have start: "get_start_point g Map.empty \<le> sys_maxsize" by (simp add: s sys_maxsize_def)
  from run_generation_no_interrupt[OF init gen tg short_t short_l bar start]
    main_init[OF init, of None Map.empty] init tg
  show ?thesis
    by (auto simp: s f effective_limit_none render_line_def)
qed

lemma init_binary_limit_0:
  "init binary_limit_0 = Inr (binary_1_2_generator\<lparr>gen_args := binary_limit_0\<rparr>)"
proof -
  have "estimate_combinations binary_limit_0 = Inr (PyInt 6)"
    by (simp add: binary_limit_0_def binary_1_2_def default_args_def estimate_combinations_def
        truthy_str_def upto.simps py_pow_def)
  then show ?thesis
    by (simp add: init_def validate_args_def binary_1_2_generator_def)
       (simp add: binary_limit_0_def binary_1_2_def default_args_def)
qed

text \<open>
  Claim C2. With \<^verbatim>\<open>--limit 0\<close> the test \<^verbatim>\<open>if self.args.limit and ...\<close> reads the
  limit as absent: the effective limit is the total (6 for the charset \<^verbatim>\<open>01\<close> with
  lengths 1 to 2), not \<open>min 0 6 = 0\<close>, and the run writes all six words.
\<close>

theorem limit_zero_ignored:
  "limit binary_limit_0 = Some 0
   \<and> effective_limit (limit binary_limit_0) 6 = 6
   \<and> effective_limit (limit binary_limit_0) 6 \<noteq> min 0 6
   \<and> (\<exists>fs'. main binary_limit_0 None Map.empty = (Completed, fs')
         \<and> fs' ''wordlist.txt''
            = Some ''0\<newline>1\<newline>00\<newline>01\<newline>10\<newline>11\<newline>'')"
proof -
  let ?g = "binary_1_2_generator\<lparr>gen_args := binary_limit_0\<rparr>"
  have f: "limit binary_limit_0 = Some 0" "output_file binary_limit_0 = ''wordlist.txt''"
    "prefix binary_limit_0 = []" "suffix binary_limit_0 = []"
    by (simp_all add: binary_limit_0_def binary_1_2_def default_args_def)
  have gen: "word_generator binary_limit_0 = ([''0'', ''1'', ''00'', ''01'', ''10'', ''11''], None)"
    by (simp add: binary_limit_0_def binary_1_2_def default_args_def word_generator_def
        generate_combinations_def truthy_str_def upto.simps product_repeat_def
        itertools_product_def product_step_def eval_nat_numeral)
  have tg: "total_combinations ?g = PyInt 6" by (simp add: binary_1_2_generator_def)
  have s: "get_start_point ?g Map.empty = 0" by (simp add: get_start_point_def)
  have short_t: "\<not> str_too_long 6" by (rule small_is_short) simp
  have short_l: "\<forall>l. limit binary_limit_0 = Some l \<longrightarrow> \<not> str_too_long l"
    by (simp add: f small_is_short)
  have fits: "\<not> float_overflows 6" by (rule small_fits_float) simp
  have bar: "progress_bar (PyInt (effective_limit (limit binary_limit_0) 6))
      (get_start_point ?g Map.empty) = None"
    unfolding s f effective_limit_zero using fits
    by (intro progress_bar_nonneg) (simp_all add: sys_maxsize_def)
  have start: "get_start_point ?g Map.empty \<le> sys_maxsize" by (simp add: s sys_maxsize_def)
  from run_generation_no_interrupt[OF init_binary_limit_0 gen tg short_t short_l bar start]
    main_init[OF init_binary_limit_0, of None Map.empty]
  have "\<exists>fs'. main binary_limit_0 None Map.empty = (Completed, fs')
         \<and> fs' ''wordlist.txt''
            = Some ''0\<newline>1\<newline>00\<newline>01\<newline>10\<newline>11\<newline>''"
    by (auto simp: s f effective_limit_zero render_line_def)
  then show ?thesis by (simp add: f effective_limit_zero)
qed

end
